theory Spec2Isabelle
  imports Main "HOL-Library.Multiset" "HOL-Library.List_Lexorder" "HOL-Library.Char_ord"
begin

section \<open>The task service of \<^verbatim>\<open>src/modules/tasks/tasks.service.ts\<close>\<close>

text \<open>
  \<^verbatim>\<open>TasksService\<close> orchestrates two collaborators it is handed by injection: a
  TypeORM \<^verbatim>\<open>Repository<Task>\<close> and a BullMQ \<^verbatim>\<open>Queue\<close>. The embedding keeps both
  as explicit state. Every method of the class becomes a function from the service
  state to a result and the state afterwards; a rejected promise or a thrown error is
  the \<open>Inl\<close> of the result.
\<close>

subsection \<open>Enumerations and entities\<close>

text \<open>
  Modelled from the spec: the enums \<^verbatim>\<open>TaskStatus\<close> and \<^verbatim>\<open>TaskPriority\<close> are imported
  by the service but declared elsewhere. Their members are the ones the spec lists; the
  string values are the literals the SQL of \<^verbatim>\<open>findTasksStatistics\<close> compares with.
\<close>

datatype TaskStatus = PENDING | IN_PROGRESS | COMPLETED

datatype TaskPriority = LOW | MEDIUM | HIGH

fun status_value :: "TaskStatus \<Rightarrow> string" where
  "status_value PENDING = ''PENDING''"
| "status_value IN_PROGRESS = ''IN_PROGRESS''"
| "status_value COMPLETED = ''COMPLETED''"

fun priority_value :: "TaskPriority \<Rightarrow> string" where
  "priority_value LOW = ''LOW''"
| "priority_value MEDIUM = ''MEDIUM''"
| "priority_value HIGH = ''HIGH''"

text \<open>
  Modelled from the spec: the \<^verbatim>\<open>User\<close> and \<^verbatim>\<open>Task\<close> entities. A TypeScript string enum
  is a string at run time, and \<^verbatim>\<open>updateStatus\<close> stores whatever string it is given, so
  the stored \<open>status\<close> and \<open>priority\<close> are strings. \<open>user\<close> is the relation that a
  join loads; a table row carries the columns only.
\<close>

record User =
  user_id :: string

record Task =
  task_id :: string
  title :: string
  description :: string
  status :: string
  priority :: string
  dueDate :: "string option"
  userId :: string
  user :: "User option"

text \<open>
  Modelled from the spec: the two DTO classes. A task is created from a title, a
  description, a priority, an optional due date and its owner; every property of a
  patch is optional (\<open>None\<close> is a property that is absent).
\<close>

record CreateTaskDto =
  new_title :: string
  new_description :: string
  new_priority :: TaskPriority
  new_dueDate :: "string option"
  new_userId :: string

record UpdateTaskDto =
  patch_title :: "string option"
  patch_description :: "string option"
  patch_status :: "TaskStatus option"
  patch_priority :: "TaskPriority option"
  patch_dueDate :: "string option"

text \<open>
  What a method can fail with. \<open>NotFoundException\<close> is the error the commented-out
  lines of \<^verbatim>\<open>findOne\<close> used to throw; \<open>TypeError\<close> is a property access on \<^verbatim>\<open>null\<close>;
  the last three are TypeORM's: an entity that is not an object, a \<^verbatim>\<open>skip\<close> or \<^verbatim>\<open>take\<close>
  that is \<^verbatim>\<open>NaN\<close>, and a statement the database rejects.
\<close>

datatype error =
  NotFoundException | TypeError | MustBeEntityError | TypeORMError | QueryFailedError

subsection \<open>JavaScript values\<close>

text \<open>
  A \<^verbatim>\<open>number\<close> argument is an integer or \<^verbatim>\<open>NaN\<close> (page numbers and page sizes are
  counts; fractions and infinities are left out). \<^verbatim>\<open>if (x)\<close> takes the branch when
  \<open>x\<close> is truthy: a string that is not empty, a number that is neither 0 nor \<^verbatim>\<open>NaN\<close>;
  \<^verbatim>\<open>undefined\<close> is falsy.
\<close>

datatype number = Num int | NaN

fun truthy_string :: "string option \<Rightarrow> bool" where
  "truthy_string None = False"
| "truthy_string (Some s) = (s \<noteq> [])"

fun truthy_number :: "number option \<Rightarrow> bool" where
  "truthy_number None = False"
| "truthy_number (Some NaN) = False"
| "truthy_number (Some (Num n)) = (n \<noteq> 0)"

fun number_sub :: "number \<Rightarrow> number \<Rightarrow> number" where
  "number_sub (Num a) (Num b) = Num (a - b)"
| "number_sub _ _ = NaN"

fun number_mul :: "number \<Rightarrow> number \<Rightarrow> number" where
  "number_mul (Num a) (Num b) = Num (a * b)"
| "number_mul _ _ = NaN"

subsection \<open>The repository\<close>

text \<open>
  The table is the list of its rows in the order they were inserted. \<open>statusDefault\<close>
  is the column default of \<open>status\<close>, declared by the entity; the spec says only that a
  created task gets "a default status", so it is a parameter of the store.
  \<open>unordered\<close> is the order in which the database hands back the rows of a statement
  that has no \<^verbatim>\<open>ORDER BY\<close>: SQL leaves it open, so it is a parameter of the store too,
  and a property that depends on it assumes only that it permutes the rows.
\<close>

record Repository =
  rows :: "Task list"
  users :: "User list"
  statusDefault :: TaskStatus
  unordered :: "Task list \<Rightarrow> Task list"

definition columns :: "Task \<Rightarrow> Task" where
  "columns t = t\<lparr>user := None\<rparr>"

definition join_user :: "Repository \<Rightarrow> Task \<Rightarrow> Task" where
  "join_user r t = t\<lparr>user := find (\<lambda>u. user_id u = userId t) (users r)\<rparr>"

text \<open>\<^verbatim>\<open>findOne({ where: { id }, relations: ['user'] })\<close>: the first row, or \<^verbatim>\<open>null\<close>.\<close>

definition repository_findOne :: "string \<Rightarrow> Repository \<Rightarrow> Task option" where
  "repository_findOne i r = map_option (join_user r) (find (\<lambda>t. task_id t = i) (rows r))"

text \<open>
  \<^verbatim>\<open>save(create(dto))\<close>: the entity built from the DTO has no id, so \<^verbatim>\<open>save\<close> inserts a
  row; the store generates the id (\<open>generated\<close>) and fills in the column default, and
  the entity comes back with both.
\<close>

definition repository_insert ::
  "string \<Rightarrow> CreateTaskDto \<Rightarrow> Repository \<Rightarrow> Task \<times> Repository" where
  "repository_insert generated dto r =
     (let t = \<lparr>task_id = generated, title = new_title dto,
                description = new_description dto,
                status = status_value (statusDefault r),
                priority = priority_value (new_priority dto),
                dueDate = new_dueDate dto, userId = new_userId dto, user = None\<rparr>
      in (t, r\<lparr>rows := rows r @ [t]\<rparr>))"

text \<open>
  \<^verbatim>\<open>save(task)\<close> of an entity that has an id: the row with that id is rewritten (an
  entity whose id is unknown is inserted), and the same entity is returned.
\<close>

definition repository_save :: "Task \<Rightarrow> Repository \<Rightarrow> Task \<times> Repository" where
  "repository_save t r =
     (t, if list_ex (\<lambda>row. task_id row = task_id t) (rows r)
         then r\<lparr>rows := map (\<lambda>row. if task_id row = task_id t then columns t else row) (rows r)\<rparr>
         else r\<lparr>rows := rows r @ [columns t]\<rparr>)"

text \<open>
  \<^verbatim>\<open>remove(task)\<close>: TypeORM rejects a value that is not an object with
  \<^verbatim>\<open>MustBeEntityError\<close> before it touches the table; otherwise the row goes.
\<close>

fun repository_remove :: "Task option \<Rightarrow> Repository \<Rightarrow> (error + unit) \<times> Repository" where
  "repository_remove None r = (Inl MustBeEntityError, r)"
| "repository_remove (Some t) r =
     (Inr (), r\<lparr>rows := filter (\<lambda>row. task_id row \<noteq> task_id t) (rows r)\<rparr>)"

subsection \<open>The queue\<close>

text \<open>
  A job is the name and the payload of one \<^verbatim>\<open>add\<close> call. \<open>accepting\<close> says whether
  the queue takes the next job: \<^verbatim>\<open>add\<close> returns a promise, resolved when the job is in
  the queue and rejected when it is not.
\<close>

record Job =
  job_name :: string
  job_taskId :: string
  job_status :: string

record Queue =
  jobs :: "Job list"
  accepting :: bool

definition queue_add :: "Job \<Rightarrow> Queue \<Rightarrow> bool \<times> Queue" where
  "queue_add j q = (if accepting q then (True, q\<lparr>jobs := jobs q @ [j]\<rparr>) else (False, q))"

record TasksService =
  tasksRepository :: Repository
  taskQueue :: Queue

subsection \<open>The methods\<close>

text \<open>
  \<^verbatim>\<open>create\<close>, lines 20 to 33. The promise of \<^verbatim>\<open>taskQueue.add\<close> is neither awaited
  nor read: its outcome is dropped.
\<close>

definition create ::
  "string \<Rightarrow> CreateTaskDto \<Rightarrow> TasksService \<Rightarrow> (error + Task) \<times> TasksService" where
  "create generated createTaskDto s =
     (let (savedTask, repo) = repository_insert generated createTaskDto (tasksRepository s);
          (_, queue) = queue_add \<lparr>job_name = ''task-status-update'',
                                   job_taskId = task_id savedTask,
                                   job_status = status savedTask\<rparr> (taskQueue s)
      in (Inr savedTask, s\<lparr>tasksRepository := repo, taskQueue := queue\<rparr>))"

text \<open>
  \<^verbatim>\<open>findOne\<close>, lines 85 to 97. The count and the \<^verbatim>\<open>throw\<close> are commented out, so the
  method returns what the repository returns, \<^verbatim>\<open>null\<close> (\<open>None\<close>) included, under the
  cast \<^verbatim>\<open>as Task\<close>.
\<close>

definition findOne :: "string \<Rightarrow> TasksService \<Rightarrow> (error + Task option) \<times> TasksService" where
  "findOne i s = (Inr (repository_findOne i (tasksRepository s)), s)"

text \<open>
  \<^verbatim>\<open>findAll\<close>, lines 35 to 61. The query builder is the list of rows it selects
  from: \<^verbatim>\<open>andWhere\<close> filters it. \<^verbatim>\<open>skip\<close> and \<^verbatim>\<open>take\<close> throw on \<^verbatim>\<open>NaN\<close>, and
  \<^verbatim>\<open>take(undefined)\<close> sets no limit. \<^verbatim>\<open>getMany\<close> runs the statement: the database
  rejects a negative offset or limit, a limit of 0 is not sent (TypeORM tests the
  value for truthiness), and every row comes back with its user joined.

  The query joins \<^verbatim>\<open>task.user\<close>, and with a join TypeORM does not put \<^verbatim>\<open>skip\<close> and
  \<^verbatim>\<open>take\<close> on the statement itself. When either is set (truthy) it runs two
  statements: the first selects the distinct primary keys of the matching rows,
  \<^verbatim>\<open>ORDER BY\<close> the key ascending, with the offset and the limit (\<open>page_ids\<close>); the
  second loads the rows that have these keys, with no \<^verbatim>\<open>ORDER BY\<close>. When neither is
  set, one statement loads every matching row, again with no \<^verbatim>\<open>ORDER BY\<close>. Ids are
  compared the way a database compares uuid keys, byte by byte, which on their text is
  the lexicographic order of the characters.
\<close>

fun query_skip :: "number \<Rightarrow> error + int" where
  "query_skip NaN = Inl TypeORMError"
| "query_skip (Num n) = Inr n"

fun query_take :: "number option \<Rightarrow> error + int option" where
  "query_take None = Inr None"
| "query_take (Some NaN) = Inl TypeORMError"
| "query_take (Some (Num n)) = Inr (Some n)"

fun limited :: "int option \<Rightarrow> 'a list \<Rightarrow> 'a list" where
  "limited None xs = xs"
| "limited (Some n) xs = (if n = 0 then xs else take (nat n) xs)"

definition page_ids :: "int \<Rightarrow> int option \<Rightarrow> Task list \<Rightarrow> string list" where
  "page_ids sk tk selected = limited tk (drop (nat sk) (remdups (sort (map task_id selected))))"

definition getMany :: "Repository \<Rightarrow> int \<Rightarrow> int option \<Rightarrow> Task list \<Rightarrow> error + Task list" where
  "getMany r sk tk selected =
     (if sk < 0 \<or> (case tk of None \<Rightarrow> False | Some n \<Rightarrow> n < 0) then Inl QueryFailedError
      else if sk = 0 \<and> (case tk of None \<Rightarrow> True | Some n \<Rightarrow> n = 0)
      then Inr (map (join_user r) (unordered r selected))
      else Inr (map (join_user r)
                  (unordered r
                     (filter (\<lambda>t. task_id t \<in> set (page_ids sk tk selected)) selected))))"

definition findAll ::
  "string option \<Rightarrow> string option \<Rightarrow> number option \<Rightarrow> number option \<Rightarrow> TasksService
     \<Rightarrow> (error + Task list) \<times> TasksService" where
  "findAll status_filter priority_filter page limit s =
     (let query = rows (tasksRepository s);
          query = (if truthy_string status_filter
                   then filter (\<lambda>t. status t = the status_filter) query else query);
          query = (if truthy_string priority_filter
                   then filter (\<lambda>t. priority t = the priority_filter) query else query);
          pageNumber = (if truthy_number page then the page else Num 1);
          limitNumber = (if truthy_number limit then the limit else Num 10)
      in (case query_skip (number_mul (number_sub pageNumber (Num 1)) limitNumber) of
            Inl e \<Rightarrow> (Inl e, s)
          | Inr sk \<Rightarrow>
              (case query_take limit of
                 Inl e \<Rightarrow> (Inl e, s)
               | Inr tk \<Rightarrow> (getMany (tasksRepository s) sk tk query, s))))"

text \<open>
  \<^verbatim>\<open>findTasksStatistics\<close>, lines 63 to 83. \<^verbatim>\<open>COUNT(*)\<close> counts the rows; \<^verbatim>\<open>SUM\<close> of no
  rows is \<^verbatim>\<open>NULL\<close>, and \<^verbatim>\<open>Number(null)\<close> is 0.
\<close>

record Statistics =
  total :: int
  completed :: int
  inProgress :: int
  pending :: int
  highPriority :: int

definition sql_count :: "'a list \<Rightarrow> int option" where
  "sql_count xs = Some (int (length xs))"

definition sql_sum :: "int list \<Rightarrow> int option" where
  "sql_sum xs = (if xs = [] then None else Some (sum_list xs))"

fun js_Number :: "int option \<Rightarrow> int" where
  "js_Number None = 0"
| "js_Number (Some n) = n"

definition findTasksStatistics :: "TasksService \<Rightarrow> (error + Statistics) \<times> TasksService" where
  "findTasksStatistics s =
     (let table = rows (tasksRepository s);
          result_total = sql_count table;
          result_completed =
            sql_sum (map (\<lambda>t. if status t = ''COMPLETED'' then 1 else 0) table);
          result_inProgress =
            sql_sum (map (\<lambda>t. if status t = ''IN_PROGRESS'' then 1 else 0) table);
          result_pending =
            sql_sum (map (\<lambda>t. if status t = ''PENDING'' then 1 else 0) table);
          result_highPriority =
            sql_sum (map (\<lambda>t. if priority t = ''HIGH'' then 1 else 0) table)
      in (Inr \<lparr>total = js_Number result_total,
                completed = js_Number result_completed,
                inProgress = js_Number result_inProgress,
                pending = js_Number result_pending,
                highPriority = js_Number result_highPriority\<rparr>, s))"

text \<open>
  \<^verbatim>\<open>update\<close>, lines 99 to 124. \<^verbatim>\<open>findOne\<close> may hand back \<^verbatim>\<open>null\<close>, and reading
  \<^verbatim>\<open>task.status\<close> of it throws a \<^verbatim>\<open>TypeError\<close>. Each assignment is guarded by the
  truthiness of the patch's property; a member of an enum is a string that is not
  empty.
\<close>

definition apply_patch :: "UpdateTaskDto \<Rightarrow> Task \<Rightarrow> Task" where
  "apply_patch updateTaskDto task =
     (let task = (if truthy_string (patch_title updateTaskDto)
                  then task\<lparr>title := the (patch_title updateTaskDto)\<rparr> else task);
          task = (if truthy_string (patch_description updateTaskDto)
                  then task\<lparr>description := the (patch_description updateTaskDto)\<rparr> else task);
          task = (if truthy_string (map_option status_value (patch_status updateTaskDto))
                  then task\<lparr>status := status_value (the (patch_status updateTaskDto))\<rparr>
                  else task);
          task = (if truthy_string (map_option priority_value (patch_priority updateTaskDto))
                  then task\<lparr>priority := priority_value (the (patch_priority updateTaskDto))\<rparr>
                  else task);
          task = (if truthy_string (patch_dueDate updateTaskDto)
                  then task\<lparr>dueDate := patch_dueDate updateTaskDto\<rparr> else task)
      in task)"

definition update ::
  "string \<Rightarrow> UpdateTaskDto \<Rightarrow> TasksService \<Rightarrow> (error + Task) \<times> TasksService" where
  "update i updateTaskDto s =
     (case fst (findOne i s) of
        Inl e \<Rightarrow> (Inl e, s)
      | Inr None \<Rightarrow> (Inl TypeError, s)
      | Inr (Some task) \<Rightarrow>
          (let originalStatus = status task;
               (updatedTask, repo) =
                 repository_save (apply_patch updateTaskDto task) (tasksRepository s);
               queue = (if originalStatus \<noteq> status updatedTask
                        then snd (queue_add \<lparr>job_name = ''task-status-update'',
                                              job_taskId = task_id updatedTask,
                                              job_status = status updatedTask\<rparr> (taskQueue s))
                        else taskQueue s)
           in (Inr updatedTask, s\<lparr>tasksRepository := repo, taskQueue := queue\<rparr>)))"

text \<open>\<^verbatim>\<open>remove\<close>, lines 126 to 130: what \<^verbatim>\<open>findOne\<close> returns goes to the repository as it is.\<close>

definition remove_task :: "string \<Rightarrow> TasksService \<Rightarrow> (error + unit) \<times> TasksService" where
  "remove_task i s =
     (case fst (findOne i s) of
        Inl e \<Rightarrow> (Inl e, s)
      | Inr task \<Rightarrow>
          (let (res, repo) = repository_remove task (tasksRepository s)
           in (res, s\<lparr>tasksRepository := repo\<rparr>)))"

text \<open>
  \<^verbatim>\<open>findByStatus\<close>, lines 132 to 136: the raw \<^verbatim>\<open>SELECT\<close> returns the rows, no relation
  loaded, in the order the database chooses.
\<close>

definition findByStatus :: "TaskStatus \<Rightarrow> TasksService \<Rightarrow> (error + Task list) \<times> TasksService" where
  "findByStatus st s =
     (Inr (unordered (tasksRepository s)
             (filter (\<lambda>t. status t = status_value st) (rows (tasksRepository s)))), s)"

text \<open>
  \<^verbatim>\<open>updateStatus\<close>, lines 138 to 143: the string is assigned under \<^verbatim>\<open>as any\<close>, with
  no check, and the entity is saved. Assigning to a property of \<^verbatim>\<open>null\<close> throws.
\<close>

definition updateStatus ::
  "string \<Rightarrow> string \<Rightarrow> TasksService \<Rightarrow> (error + Task) \<times> TasksService" where
  "updateStatus i new_status s =
     (case fst (findOne i s) of
        Inl e \<Rightarrow> (Inl e, s)
      | Inr None \<Rightarrow> (Inl TypeError, s)
      | Inr (Some task) \<Rightarrow>
          (let (saved, repo) = repository_save (task\<lparr>status := new_status\<rparr>) (tasksRepository s)
           in (Inr saved, s\<lparr>tasksRepository := repo\<rparr>)))"

subsection \<open>Sequences of calls\<close>

text \<open>
  A reachable state is what a sequence of calls leaves behind. \<open>perform\<close> keeps the
  state of one call and drops its result.
\<close>

datatype operation =
    Create string CreateTaskDto
  | FindAll "string option" "string option" "number option" "number option"
  | FindTasksStatistics
  | FindOne string
  | Update string UpdateTaskDto
  | Remove string
  | FindByStatus TaskStatus
  | UpdateStatus string string

fun perform :: "operation \<Rightarrow> TasksService \<Rightarrow> TasksService" where
  "perform (Create generated dto) s = snd (create generated dto s)"
| "perform (FindAll st pr page limit) s = snd (findAll st pr page limit s)"
| "perform FindTasksStatistics s = snd (findTasksStatistics s)"
| "perform (FindOne i) s = snd (findOne i s)"
| "perform (Update i dto) s = snd (update i dto s)"
| "perform (Remove i) s = snd (remove_task i s)"
| "perform (FindByStatus st) s = snd (findByStatus st s)"
| "perform (UpdateStatus i v) s = snd (updateStatus i v s)"

fun run :: "operation list \<Rightarrow> TasksService \<Rightarrow> TasksService" where
  "run [] s = s"
| "run (c # cs) s = run cs (perform c s)"

definition is_status :: "string \<Rightarrow> bool" where
  "is_status v = list_ex (\<lambda>x. status_value x = v) [PENDING, IN_PROGRESS, COMPLETED]"

definition is_priority :: "string \<Rightarrow> bool" where
  "is_priority v = list_ex (\<lambda>x. priority_value x = v) [LOW, MEDIUM, HIGH]"

definition enumerated :: "TasksService \<Rightarrow> bool" where
  "enumerated s =
     list_all (\<lambda>t. is_status (status t) \<and> is_priority (priority t)) (rows (tasksRepository s))"

text \<open>A call is \<open>checked\<close> unless it is an \<^verbatim>\<open>updateStatus\<close> with a string outside the enum.\<close>

fun checked :: "operation \<Rightarrow> bool" where
  "checked (UpdateStatus i v) = is_status v"
| "checked _ = True"

subsection \<open>Sample data\<close>

definition sample_task :: "string \<Rightarrow> string \<Rightarrow> string \<Rightarrow> Task" where
  "sample_task i st pr =
     \<lparr>task_id = i, title = ''write report'', description = ''quarterly figures'',
      status = st, priority = pr, dueDate = None, userId = ''u1'', user = None\<rparr>"

definition sample_dto :: CreateTaskDto where
  "sample_dto =
     \<lparr>new_title = ''write report'', new_description = ''quarterly figures'',
      new_priority = MEDIUM, new_dueDate = None, new_userId = ''u1''\<rparr>"

definition status_patch :: "TaskStatus \<Rightarrow> UpdateTaskDto" where
  "status_patch st =
     \<lparr>patch_title = None, patch_description = None, patch_status = Some st,
      patch_priority = None, patch_dueDate = None\<rparr>"

text \<open>
  Two stores: \<open>service_with\<close> hands unordered rows back in the order of the table,
  \<open>reversing_service\<close> in the opposite order.
\<close>

definition service_with :: "Task list \<Rightarrow> bool \<Rightarrow> TasksService" where
  "service_with ts up =
     \<lparr>tasksRepository = \<lparr>rows = ts, users = [\<lparr>user_id = ''u1''\<rparr>], statusDefault = PENDING,
                         unordered = (\<lambda>xs. xs)\<rparr>,
      taskQueue = \<lparr>jobs = [], accepting = up\<rparr>\<rparr>"

definition reversing_service :: "Task list \<Rightarrow> TasksService" where
  "reversing_service ts =
     \<lparr>tasksRepository = \<lparr>rows = ts, users = [\<lparr>user_id = ''u1''\<rparr>], statusDefault = PENDING,
                         unordered = rev\<rparr>,
      taskQueue = \<lparr>jobs = [], accepting = True\<rparr>\<rparr>"

definition lettered_tasks :: "string \<Rightarrow> Task list" where
  "lettered_tasks cs = map (\<lambda>c. sample_task [c] ''PENDING'' ''LOW'') cs"

definition six_tasks :: "Task list" where
  "six_tasks =
     [sample_task ''a'' ''COMPLETED'' ''HIGH'', sample_task ''b'' ''COMPLETED'' ''LOW'',
      sample_task ''c'' ''COMPLETED'' ''MEDIUM'', sample_task ''d'' ''IN_PROGRESS'' ''HIGH'',
      sample_task ''e'' ''IN_PROGRESS'' ''LOW'', sample_task ''f'' ''PENDING'' ''MEDIUM'']"

section \<open>Properties\<close>

subsection \<open>Patches and lookups\<close>

lemma status_value_nonempty: "status_value v \<noteq> []"
  by (cases v) simp_all

lemma priority_value_nonempty: "priority_value v \<noteq> []"
  by (cases v) simp_all

lemma truthy_status [simp]: "truthy_string (map_option status_value x) = (x \<noteq> None)"
  by (cases x) (simp_all add: status_value_nonempty)

lemma truthy_priority [simp]: "truthy_string (map_option priority_value x) = (x \<noteq> None)"
  by (cases x) (simp_all add: priority_value_nonempty)

lemma apply_patch_task_id: "task_id (apply_patch dto task) = task_id task"
  by (simp add: apply_patch_def Let_def)

lemma apply_patch_userId: "userId (apply_patch dto task) = userId task"
  by (simp add: apply_patch_def Let_def)

lemma apply_patch_user: "user (apply_patch dto task) = user task"
  by (simp add: apply_patch_def Let_def)

lemma apply_patch_title:
  "title (apply_patch dto task) =
     (if truthy_string (patch_title dto) then the (patch_title dto) else title task)"
  by (simp add: apply_patch_def Let_def)

lemma apply_patch_description:
  "description (apply_patch dto task) =
     (if truthy_string (patch_description dto) then the (patch_description dto)
      else description task)"
  by (simp add: apply_patch_def Let_def)

lemma apply_patch_status:
  "status (apply_patch dto task) =
     (case patch_status dto of None \<Rightarrow> status task | Some v \<Rightarrow> status_value v)"
  by (cases "patch_status dto") (simp_all add: apply_patch_def Let_def status_value_nonempty)

lemma apply_patch_priority:
  "priority (apply_patch dto task) =
     (case patch_priority dto of None \<Rightarrow> priority task | Some v \<Rightarrow> priority_value v)"
  by (cases "patch_priority dto") (simp_all add: apply_patch_def Let_def priority_value_nonempty)

lemma apply_patch_dueDate:
  "dueDate (apply_patch dto task) =
     (if truthy_string (patch_dueDate dto) then patch_dueDate dto else dueDate task)"
  by (simp add: apply_patch_def Let_def)


lemma find_task_id:
  "find (\<lambda>t. task_id t = i) xs = Some t \<Longrightarrow>
     task_id t = i \<and> list_ex (\<lambda>row. task_id row = i) xs"
  by (induction xs) (auto split: if_splits)

lemma repository_findOne_id:
  assumes "repository_findOne i r = Some task"
  shows "task_id task = i" and "list_ex (\<lambda>row. task_id row = i) (rows r)"
  using assms find_task_id [of i "rows r"]
  by (auto simp add: repository_findOne_def join_user_def)

lemma update_existing:
  assumes "repository_findOne i (tasksRepository s) = Some task"
  shows "update i dto s =
     (Inr (apply_patch dto task),
      s\<lparr>tasksRepository := (tasksRepository s)
           \<lparr>rows := map (\<lambda>row. if task_id row = i then columns (apply_patch dto task) else row)
                       (rows (tasksRepository s))\<rparr>,
        taskQueue := (if status task \<noteq> status (apply_patch dto task)
                      then snd (queue_add \<lparr>job_name = ''task-status-update'', job_taskId = i,
                                   job_status = status (apply_patch dto task)\<rparr> (taskQueue s))
                      else taskQueue s)\<rparr>)"
proof -
  have i: "task_id task = i" and ex: "list_ex (\<lambda>row. task_id row = i) (rows (tasksRepository s))"
    using repository_findOne_id [OF assms] by simp_all
  have sv: "repository_save (apply_patch dto task) (tasksRepository s) =
      (apply_patch dto task,
       (tasksRepository s)\<lparr>rows := map (\<lambda>row. if task_id row = i then columns (apply_patch dto task) else row)
                       (rows (tasksRepository s))\<rparr>)"
    using ex by (simp add: repository_save_def apply_patch_task_id i)
  show ?thesis
    unfolding update_def findOne_def
    by (simp only: fst_conv assms sum.case option.case sv Let_def prod.case apply_patch_task_id i)
qed

subsection \<open>Creating a task\<close>

text \<open>
  C1. \<^verbatim>\<open>create\<close> always returns the task it saved, which is the new last row of the
  table, whether the queue takes the job or not: the outcome of \<^verbatim>\<open>add\<close> is not read.
  When the queue accepts, it gains exactly one job, named \<^verbatim>\<open>task-status-update\<close>, with
  the saved task's id and status; when it does not, it is left as it was.
\<close>

theorem create_best_effort:
  "\<exists>savedTask s'.
     create generated dto s = (Inr savedTask, s') \<and>
     savedTask =
       \<lparr>task_id = generated, title = new_title dto, description = new_description dto,
        status = status_value (statusDefault (tasksRepository s)),
        priority = priority_value (new_priority dto), dueDate = new_dueDate dto,
        userId = new_userId dto, user = None\<rparr> \<and>
     rows (tasksRepository s') = rows (tasksRepository s) @ [savedTask] \<and>
     jobs (taskQueue s') =
       (if accepting (taskQueue s)
        then jobs (taskQueue s) @
             [\<lparr>job_name = ''task-status-update'', job_taskId = task_id savedTask,
               job_status = status savedTask\<rparr>]
        else jobs (taskQueue s))"
  by (simp add: create_def repository_insert_def queue_add_def Let_def)

theorem create_best_effort_witness:
  "fst (create ''t1'' sample_dto (service_with [] False)) = Inr (sample_task ''t1'' ''PENDING'' ''MEDIUM'') \<and>
   rows (tasksRepository (snd (create ''t1'' sample_dto (service_with [] False)))) = [sample_task ''t1'' ''PENDING'' ''MEDIUM''] \<and>
   jobs (taskQueue (snd (create ''t1'' sample_dto (service_with [] False)))) = [] \<and>
   fst (create ''t1'' sample_dto (service_with [] True)) = Inr (sample_task ''t1'' ''PENDING'' ''MEDIUM'') \<and>
   jobs (taskQueue (snd (create ''t1'' sample_dto (service_with [] True)))) =
     [\<lparr>job_name = ''task-status-update'', job_taskId = ''t1'', job_status = ''PENDING''\<rparr>]"
  using create_best_effort [of "''t1''" sample_dto "service_with [] False"]
        create_best_effort [of "''t1''" sample_dto "service_with [] True"]
  by (auto simp add: sample_dto_def service_with_def sample_task_def)

subsection \<open>Updating a task\<close>

text \<open>
  C2. For a task that exists and a queue that accepts jobs, \<^verbatim>\<open>update\<close> enqueues
  exactly one \<^verbatim>\<open>task-status-update\<close> job, carrying the task's id and its new status,
  if the status after the update differs from the status before it, and no job
  otherwise. The status differs exactly when the patch holds a status other than the
  stored one.
\<close>

theorem update_emits_iff_status_changed:
  assumes found: "repository_findOne i (tasksRepository s) = Some task"
      and up: "accepting (taskQueue s)"
  shows "\<exists>updatedTask s'.
           update i dto s = (Inr updatedTask, s') \<and>
           (status updatedTask \<noteq> status task) =
             (\<exists>v. patch_status dto = Some v \<and> status_value v \<noteq> status task) \<and>
           jobs (taskQueue s') =
             (if status updatedTask \<noteq> status task
              then jobs (taskQueue s) @
                   [\<lparr>job_name = ''task-status-update'', job_taskId = i,
                     job_status = status updatedTask\<rparr>]
              else jobs (taskQueue s))"
proof -
  have "(status (apply_patch dto task) \<noteq> status task) =
          (\<exists>v. patch_status dto = Some v \<and> status_value v \<noteq> status task)"
    by (cases "patch_status dto") (auto simp add: apply_patch_status)
  moreover have "status task \<noteq> status (apply_patch dto task) \<longleftrightarrow>
      status (apply_patch dto task) \<noteq> status task"
    by auto
  ultimately show ?thesis
    unfolding update_existing [OF found]
    using up by (auto simp add: queue_add_def)
qed

theorem update_emits_iff_status_changed_witness:
  "jobs (taskQueue (snd (update ''a'' (status_patch COMPLETED)
      (service_with [sample_task ''a'' ''PENDING'' ''LOW''] True)))) =
     [\<lparr>job_name = ''task-status-update'', job_taskId = ''a'', job_status = ''COMPLETED''\<rparr>] \<and>
   jobs (taskQueue (snd (update ''a'' (status_patch PENDING)
      (service_with [sample_task ''a'' ''PENDING'' ''LOW''] True)))) = []"
proof -
  let ?s = "service_with [sample_task ''a'' ''PENDING'' ''LOW''] True"
  let ?t = "join_user (tasksRepository ?s) (sample_task ''a'' ''PENDING'' ''LOW'')"
  have found: "repository_findOne ''a'' (tasksRepository ?s) = Some ?t"
    by (simp add: repository_findOne_def service_with_def sample_task_def)
  have up: "accepting (taskQueue ?s)"
    by (simp add: service_with_def)
  have direct: ?thesis
    unfolding update_existing [OF found]
    by (simp add: apply_patch_def status_patch_def queue_add_def
          join_user_def service_with_def sample_task_def Let_def)
  show ?thesis
    using update_emits_iff_status_changed [OF found up, of "status_patch COMPLETED"]
          update_emits_iff_status_changed [OF found up, of "status_patch PENDING"] direct
    by simp
qed

text \<open>
  C3. For a task that exists, \<^verbatim>\<open>update\<close> assigns a property of the patch only when it
  is present and truthy: an absent property and an empty string leave the field as it
  was. The id, the owner and every other row of the table are untouched, and a patch
  that holds a status only changes the status only.
\<close>

theorem update_applies_truthy_fields:
  assumes found: "repository_findOne i (tasksRepository s) = Some task"
  shows "\<exists>updatedTask s'.
           update i dto s = (Inr updatedTask, s') \<and>
           title updatedTask =
             (if truthy_string (patch_title dto) then the (patch_title dto) else title task) \<and>
           description updatedTask =
             (if truthy_string (patch_description dto) then the (patch_description dto)
              else description task) \<and>
           status updatedTask =
             (case patch_status dto of None \<Rightarrow> status task | Some v \<Rightarrow> status_value v) \<and>
           priority updatedTask =
             (case patch_priority dto of None \<Rightarrow> priority task | Some v \<Rightarrow> priority_value v) \<and>
           dueDate updatedTask =
             (if truthy_string (patch_dueDate dto) then patch_dueDate dto else dueDate task) \<and>
           task_id updatedTask = task_id task \<and>
           userId updatedTask = userId task \<and>
           user updatedTask = user task \<and>
           rows (tasksRepository s') =
             map (\<lambda>row. if task_id row = i then columns updatedTask else row)
               (rows (tasksRepository s)) \<and>
           (patch_title dto = None \<and> patch_description dto = None \<and>
            patch_priority dto = None \<and> patch_dueDate dto = None \<and> patch_status dto \<noteq> None
              \<longrightarrow> updatedTask = task\<lparr>status := status_value (the (patch_status dto))\<rparr>)"
proof -
  have only_status: "apply_patch dto task = task\<lparr>status := status_value (the (patch_status dto))\<rparr>"
    if "patch_title dto = None" "patch_description dto = None" "patch_priority dto = None"
       "patch_dueDate dto = None" "patch_status dto \<noteq> None"
    using that by (simp add: apply_patch_def Let_def)
  show ?thesis
    by (simp add: update_existing [OF found] apply_patch_title apply_patch_description
          apply_patch_status apply_patch_priority apply_patch_dueDate apply_patch_task_id
          apply_patch_userId apply_patch_user only_status)
qed

theorem update_applies_truthy_fields_witness:
  "fst (update ''a'' (status_patch COMPLETED)
      (service_with [sample_task ''a'' ''PENDING'' ''LOW''] True)) =
     Inr ((sample_task ''a'' ''COMPLETED'' ''LOW'')\<lparr>user := Some \<lparr>user_id = ''u1''\<rparr>\<rparr>) \<and>
   fst (update ''a''
      \<lparr>patch_title = Some '''', patch_description = Some ''new text'', patch_status = None,
       patch_priority = None, patch_dueDate = Some ''''\<rparr>
      (service_with [sample_task ''a'' ''PENDING'' ''LOW''] True)) =
     Inr ((sample_task ''a'' ''PENDING'' ''LOW'')
            \<lparr>description := ''new text'', user := Some \<lparr>user_id = ''u1''\<rparr>\<rparr>)"
proof -
  let ?s = "service_with [sample_task ''a'' ''PENDING'' ''LOW''] True"
  let ?t = "join_user (tasksRepository ?s) (sample_task ''a'' ''PENDING'' ''LOW'')"
  have found: "repository_findOne ''a'' (tasksRepository ?s) = Some ?t"
    by (simp add: repository_findOne_def service_with_def sample_task_def)
  have direct: ?thesis
    unfolding update_existing [OF found]
    by (simp add: apply_patch_def status_patch_def
          join_user_def service_with_def sample_task_def Let_def)
  show ?thesis
    using update_applies_truthy_fields [OF found, of "status_patch COMPLETED"] direct
    by simp
qed

subsection \<open>Looking a task up\<close>

lemma findOne_absent:
  "find (\<lambda>t. task_id t = i) (rows (tasksRepository s)) = None \<Longrightarrow> findOne i s = (Inr None, s)"
  by (simp add: findOne_def repository_findOne_def)

lemma findOne_existing:
  "find (\<lambda>t. task_id t = i) (rows (tasksRepository s)) = Some row \<Longrightarrow>
     findOne i s = (Inr (Some (join_user (tasksRepository s) row)), s)"
  by (simp add: findOne_def repository_findOne_def)

text \<open>
  C4. \<^verbatim>\<open>findOne\<close> is to signal Not-Found for an id that no task has. The lines that
  counted the rows and threw \<^verbatim>\<open>NotFoundException\<close> are commented out, so the method
  resolves with \<^verbatim>\<open>null\<close> instead: on a table that holds task \<open>a\<close> only, looking up
  \<open>zz\<close> returns \<open>Inr None\<close>, not \<open>Inl NotFoundException\<close>. (For an id that a task has,
  \<open>findOne_existing\<close> gives the task with its user joined.)
\<close>

theorem findOne_missing_returns_null:
  "findOne ''zz'' (service_with [sample_task ''a'' ''PENDING'' ''LOW''] True) =
     (Inr None, service_with [sample_task ''a'' ''PENDING'' ''LOW''] True)"
  by (simp add: findOne_def repository_findOne_def service_with_def sample_task_def)

subsection \<open>Removing a task\<close>

lemma remove_task_absent:
  "find (\<lambda>t. task_id t = i) (rows (tasksRepository s)) = None \<Longrightarrow>
     remove_task i s = (Inl MustBeEntityError, s)"
  by (simp add: remove_task_def findOne_def repository_findOne_def)

lemma remove_task_existing:
  assumes "find (\<lambda>t. task_id t = i) (rows (tasksRepository s)) = Some row"
  shows "remove_task i s =
     (Inr (), s\<lparr>tasksRepository := (tasksRepository s)
                  \<lparr>rows := filter (\<lambda>row. task_id row \<noteq> i) (rows (tasksRepository s))\<rparr>\<rparr>)"
  using assms find_task_id [OF assms]
  by (simp add: remove_task_def findOne_def repository_findOne_def join_user_def)

text \<open>
  C5. \<^verbatim>\<open>remove\<close> is to signal Not-Found for an id that no task has. It passes the
  \<^verbatim>\<open>null\<close> of \<^verbatim>\<open>findOne\<close> on to the repository, which rejects it with
  \<^verbatim>\<open>MustBeEntityError\<close>: on a table that holds task \<open>a\<close> only, removing \<open>zz\<close> fails with
  that error, not with \<open>NotFoundException\<close>. The table is left as it was, and
  \<open>remove_task_existing\<close> shows the rows of an id that exists deleted.
\<close>

theorem remove_missing_rejects_entity:
  "remove_task ''zz'' (service_with [sample_task ''a'' ''PENDING'' ''LOW''] True) =
     (Inl MustBeEntityError, service_with [sample_task ''a'' ''PENDING'' ''LOW''] True)"
  by (simp add: remove_task_def findOne_def repository_findOne_def service_with_def
        sample_task_def)

subsection \<open>Listing tasks\<close>

lemma findAll_unfiltered:
  "findAll None None page limit s =
     (case query_skip (number_mul (number_sub (if truthy_number page then the page else Num 1)
                         (Num 1)) (if truthy_number limit then the limit else Num 10)) of
        Inl e \<Rightarrow> (Inl e, s)
      | Inr sk \<Rightarrow>
          (case query_take limit of
             Inl e \<Rightarrow> (Inl e, s)
           | Inr tk \<Rightarrow> (getMany (tasksRepository s) sk tk (rows (tasksRepository s)), s)))"
  by (simp add: findAll_def Let_def)

lemma findAll_omitted:
  "findAll None None None None s =
     (Inr (map (join_user (tasksRepository s))
             (unordered (tasksRepository s) (rows (tasksRepository s)))), s)"
  by (simp add: findAll_unfiltered getMany_def)

text \<open>
  C6. A missing or invalid page size is to fall back to 10. \<^verbatim>\<open>limitNumber\<close> does, but
  it is used for the offset only: \<^verbatim>\<open>take\<close> is given the raw \<^verbatim>\<open>limit\<close>. With page and
  limit both omitted, a table of 11 tasks comes back whole, 11 tasks and not at most
  10; with a limit of \<^verbatim>\<open>NaN\<close> the call fails in \<^verbatim>\<open>take\<close>.
\<close>

theorem findAll_defaults_unlimited:
  "fst (findAll None None None None (service_with (lettered_tasks ''abcdefghijk'') True)) =
     Inr (map (join_user (tasksRepository (service_with (lettered_tasks ''abcdefghijk'') True)))
            (lettered_tasks ''abcdefghijk'')) \<and>
   length (lettered_tasks ''abcdefghijk'') = 11 \<and>
   fst (findAll None None None (Some NaN) (service_with (lettered_tasks ''abcdefghijk'') True)) =
     Inl TypeORMError"
proof -
  have "length (lettered_tasks ''abcdefghijk'') = 11"
    by (simp add: lettered_tasks_def)
  moreover have "rows (tasksRepository (service_with (lettered_tasks ''abcdefghijk'') True)) =
      lettered_tasks ''abcdefghijk''"
    by (simp add: service_with_def)
  moreover have "unordered (tasksRepository (service_with (lettered_tasks ''abcdefghijk'') True)) =
      (\<lambda>xs. xs)"
    by (simp add: service_with_def)
  moreover have "fst (findAll None None None (Some NaN) s) = Inl TypeORMError" for s
    by (simp add: findAll_unfiltered)
  ultimately show ?thesis
    by (simp add: findAll_omitted)
qed

lemma map_insort_key: "map f (insort_key f x xs) = insort (f x) (map f xs)"
  by (induction xs) simp_all

lemma map_sort_key: "map f (sort_key f xs) = sort (map f xs)"
  by (induction xs) (simp_all add: map_insort_key)

lemma filter_middle:
  "distinct (as @ bs @ cs) \<Longrightarrow> filter (\<lambda>x. x \<in> set bs) (as @ bs @ cs) = bs"
proof -
  assume d: "distinct (as @ bs @ cs)"
  then have "filter (\<lambda>x. x \<in> set bs) as = []" and "filter (\<lambda>x. x \<in> set bs) cs = []"
    by (auto simp add: filter_empty_conv)
  then show ?thesis by simp
qed

lemma filter_slice:
  assumes "distinct (map f xs)"
  shows "filter (\<lambda>x. f x \<in> set (map f (take n (drop k xs)))) xs = take n (drop k xs)"
proof -
  let ?b = "take n (drop k xs)"
  have split: "xs = take k xs @ ?b @ drop n (drop k xs)"
    by (simp only: append_take_drop_id)
  have d: "distinct xs" and inj: "inj_on f (set xs)"
    using assms by (simp_all add: distinct_map)
  have sub: "set ?b \<subseteq> set xs"
    by (meson set_take_subset set_drop_subset subset_trans)
  have "filter (\<lambda>x. f x \<in> set (map f ?b)) xs = filter (\<lambda>x. x \<in> set ?b) xs"
  proof (rule filter_cong [OF refl])
    fix x assume "x \<in> set xs"
    with inj sub show "(f x \<in> set (map f ?b)) = (x \<in> set ?b)"
      by (auto simp add: inj_on_def)
  qed
  also have "\<dots> = filter (\<lambda>x. x \<in> set ?b) (take k xs @ ?b @ drop n (drop k xs))"
    using split by simp
  also have "\<dots> = ?b"
  proof (rule filter_middle)
    from d split show "distinct (take k xs @ ?b @ drop n (drop k xs))"
      by metis
  qed
  finally show ?thesis .
qed

lemma page_rows:
  assumes "distinct (map task_id xs)"
  shows "mset (filter (\<lambda>t. task_id t \<in> set (take n (drop k (remdups (sort (map task_id xs)))))) xs) =
         mset (take n (drop k (sort_key task_id xs)))"
proof -
  let ?S = "sort_key task_id xs"
  have ids: "remdups (sort (map task_id xs)) = map task_id ?S"
    using assms by (simp add: map_sort_key)
  have dS: "distinct (map task_id ?S)"
    using assms by (simp add: map_sort_key)
  let ?P = "\<lambda>t. task_id t \<in> set (map task_id (take n (drop k ?S)))"
  have "mset (filter ?P xs) = mset (filter ?P ?S)"
    by simp
  also have "filter ?P ?S = take n (drop k ?S)"
    by (rule filter_slice [OF dS])
  finally show ?thesis
    by (simp add: ids take_map drop_map)
qed


lemma findAll_page:
  assumes "1 \<le> p" and "1 \<le> l"
  shows "findAll None None (Some (Num p)) (Some (Num l)) s =
     (Inr (map (join_user (tasksRepository s))
             (unordered (tasksRepository s)
                (filter (\<lambda>t. task_id t \<in>
                     set (take (nat l) (drop (nat ((p - 1) * l))
                            (remdups (sort (map task_id (rows (tasksRepository s))))))))
                   (rows (tasksRepository s))))), s)"
proof -
  have "0 \<le> (p - 1) * l"
    using assms by simp
  then show ?thesis
    using assms by (simp add: findAll_unfiltered getMany_def page_ids_def not_less)
qed

text \<open>
  C7, as amended. On a table of 25 tasks with distinct ids, \<^verbatim>\<open>findAll\<close> with no
  filter, page 2 and limit 10 returns exactly 10 tasks, each with its user joined: the
  tasks that stand 11th to 20th when the table is sorted by id ascending. The offset
  \<open>(page - 1) * limit\<close> and the limit are applied to the ids in that order, not to the
  rows in the order of the table. The order of the 10 tasks in the result is the order
  the database gives unordered rows, of which only that it permutes them is assumed.
\<close>

theorem findAll_second_page_by_id:
  assumes len: "length (rows (tasksRepository s)) = 25"
      and ids: "distinct (map task_id (rows (tasksRepository s)))"
      and perm: "\<forall>xs. mset (unordered (tasksRepository s) xs) = mset xs"
  shows "\<exists>ts. findAll None None (Some (Num 2)) (Some (Num 10)) s = (Inr ts, s) \<and>
           length ts = 10 \<and>
           mset ts =
             mset (map (join_user (tasksRepository s))
                     (take 10 (drop 10 (sort_key task_id (rows (tasksRepository s))))))"
proof -
  let ?r = "tasksRepository s"
  let ?page = "filter (\<lambda>t. task_id t \<in>
                     set (take 10 (drop 10 (remdups (sort (map task_id (rows ?r))))))) (rows ?r)"
  let ?ts = "map (join_user ?r) (unordered ?r ?page)"
  have call: "findAll None None (Some (Num 2)) (Some (Num 10)) s = (Inr ?ts, s)"
    using findAll_page [of 2 10 s] by simp
  have m: "mset (unordered ?r ?page) = mset (take 10 (drop 10 (sort_key task_id (rows ?r))))"
    using perm page_rows [OF ids, of 10 10] by simp
  then have mts: "mset ?ts = mset (map (join_user ?r) (take 10 (drop 10 (sort_key task_id (rows ?r)))))"
    by (simp only: mset_map)
  have "length (unordered ?r ?page) = length (take 10 (drop 10 (sort_key task_id (rows ?r))))"
    by (rule mset_eq_length [OF m])
  then have "length ?ts = 10"
    using len by simp
  with call mts show ?thesis
    by blast
qed

theorem findAll_second_page_by_id_witness:
  "fst (findAll None None (Some (Num 2)) (Some (Num 10))
          (reversing_service (lettered_tasks ''abcdefghijklmnopqrstuvwxy''))) =
     Inr (map (join_user (tasksRepository
                 (reversing_service (lettered_tasks ''abcdefghijklmnopqrstuvwxy''))))
            (lettered_tasks ''tsrqponmlk''))"
proof -
  let ?s = "reversing_service (lettered_tasks ''abcdefghijklmnopqrstuvwxy'')"
  have r: "rows (tasksRepository ?s) = lettered_tasks ''abcdefghijklmnopqrstuvwxy''"
    and u: "unordered (tasksRepository ?s) = rev"
    by (simp_all add: reversing_service_def)
  have len: "length (rows (tasksRepository ?s)) = 25"
    unfolding r by (simp add: lettered_tasks_def)
  have ids: "distinct (map task_id (rows (tasksRepository ?s)))"
    unfolding r by (simp add: lettered_tasks_def sample_task_def)
  have perm: "\<forall>xs. mset (unordered (tasksRepository ?s) xs) = mset xs"
    unfolding u by simp
  have page: "rev (filter (\<lambda>t. task_id t \<in>
                     set (take 10 (drop 10 (remdups (sort (map task_id
                            (lettered_tasks ''abcdefghijklmnopqrstuvwxy'')))))))
                (lettered_tasks ''abcdefghijklmnopqrstuvwxy'')) =
      lettered_tasks ''tsrqponmlk''"
    by (simp add: lettered_tasks_def sample_task_def)
  have direct: ?thesis
    using findAll_page [of 2 10 ?s] unfolding r u by (simp add: page)
  from findAll_second_page_by_id [OF len ids perm] direct show ?thesis
    by simp
qed

text \<open>
  C7 as stated fails. Let 25 tasks be inserted with the ids \<open>y\<close> down to \<open>a\<close>, in a
  store that hands unordered rows back in the order of the table. The 11th to 20th
  tasks of the table are \<open>o\<close> down to \<open>f\<close>; page 2 with limit 10 returns \<open>t\<close> down to
  \<open>k\<close>, the 11th to 20th ids in ascending order.
\<close>

theorem findAll_second_page_not_table_order:
  "length (rows (tasksRepository
      (service_with (lettered_tasks ''yxwvutsrqponmlkjihgfedcba'') True))) = 25 \<and>
   take 10 (drop 10 (rows (tasksRepository
      (service_with (lettered_tasks ''yxwvutsrqponmlkjihgfedcba'') True)))) =
     lettered_tasks ''onmlkjihgf'' \<and>
   fst (findAll None None (Some (Num 2)) (Some (Num 10))
          (service_with (lettered_tasks ''yxwvutsrqponmlkjihgfedcba'') True)) =
     Inr (map (join_user (tasksRepository
                 (service_with (lettered_tasks ''yxwvutsrqponmlkjihgfedcba'') True)))
            (lettered_tasks ''tsrqponmlk'')) \<and>
   fst (findAll None None (Some (Num 2)) (Some (Num 10))
          (service_with (lettered_tasks ''yxwvutsrqponmlkjihgfedcba'') True)) \<noteq>
     Inr (map (join_user (tasksRepository
                 (service_with (lettered_tasks ''yxwvutsrqponmlkjihgfedcba'') True)))
            (take 10 (drop 10 (rows (tasksRepository
               (service_with (lettered_tasks ''yxwvutsrqponmlkjihgfedcba'') True))))))"
proof -
  let ?s = "service_with (lettered_tasks ''yxwvutsrqponmlkjihgfedcba'') True"
  have r: "rows (tasksRepository ?s) = lettered_tasks ''yxwvutsrqponmlkjihgfedcba''"
    and u: "unordered (tasksRepository ?s) = (\<lambda>xs. xs)"
    by (simp_all add: service_with_def)
  have len: "length (lettered_tasks ''yxwvutsrqponmlkjihgfedcba'') = 25"
    by (simp add: lettered_tasks_def)
  have slice: "take 10 (drop 10 (lettered_tasks ''yxwvutsrqponmlkjihgfedcba'')) =
      lettered_tasks ''onmlkjihgf''"
    by (simp add: lettered_tasks_def)
  have page: "filter (\<lambda>t. task_id t \<in>
                     set (take 10 (drop 10 (remdups (sort (map task_id
                            (lettered_tasks ''yxwvutsrqponmlkjihgfedcba'')))))))
                (lettered_tasks ''yxwvutsrqponmlkjihgfedcba'') =
      lettered_tasks ''tsrqponmlk''"
    by (simp add: lettered_tasks_def sample_task_def)
  have call: "fst (findAll None None (Some (Num 2)) (Some (Num 10)) ?s) =
      Inr (map (join_user (tasksRepository ?s)) (lettered_tasks ''tsrqponmlk''))"
    using findAll_page [of 2 10 ?s] unfolding r u by (simp add: page)
  have differ: "map (join_user (tasksRepository ?s)) (lettered_tasks ''tsrqponmlk'') \<noteq>
      map (join_user (tasksRepository ?s)) (lettered_tasks ''onmlkjihgf'')"
    by (simp add: lettered_tasks_def sample_task_def join_user_def)
  show ?thesis
    unfolding call unfolding r slice using len differ by simp
qed

subsection \<open>Statistics\<close>

lemma sum_indicator:
  "sum_list (map (\<lambda>t. if P t then 1 else 0) xs) = int (length (filter P xs))"
  by (induction xs) simp_all

lemma js_Number_sql_sum:
  "js_Number (sql_sum (map (\<lambda>t. if P t then 1 else 0) xs)) = int (length (filter P xs))"
  by (cases xs) (simp_all add: sql_sum_def sum_indicator)

text \<open>
  C8. \<^verbatim>\<open>findTasksStatistics\<close> returns, for the table as it is at the call, the number
  of rows as \<open>total\<close>, the numbers of rows whose status is \<^verbatim>\<open>COMPLETED\<close>,
  \<^verbatim>\<open>IN_PROGRESS\<close> and \<^verbatim>\<open>PENDING\<close>, and the number of rows whose priority is \<^verbatim>\<open>HIGH\<close>;
  on an empty table every count is 0. The instance below is the spec's example.
\<close>

theorem findTasksStatistics_counts:
  "findTasksStatistics s =
     (Inr \<lparr>total = int (length (rows (tasksRepository s))),
           completed =
             int (length (filter (\<lambda>t. status t = ''COMPLETED'') (rows (tasksRepository s)))),
           inProgress =
             int (length (filter (\<lambda>t. status t = ''IN_PROGRESS'') (rows (tasksRepository s)))),
           pending =
             int (length (filter (\<lambda>t. status t = ''PENDING'') (rows (tasksRepository s)))),
           highPriority =
             int (length (filter (\<lambda>t. priority t = ''HIGH'') (rows (tasksRepository s))))\<rparr>,
      s)"
  unfolding findTasksStatistics_def Let_def js_Number_sql_sum
  by (simp add: sql_count_def)

theorem findTasksStatistics_counts_witness:
  "findTasksStatistics (service_with six_tasks True) =
     (Inr \<lparr>total = 6, completed = 3, inProgress = 2, pending = 1, highPriority = 2\<rparr>,
      service_with six_tasks True)"
proof -
  have r: "rows (tasksRepository (service_with six_tasks True)) = six_tasks"
    by (simp add: service_with_def)
  show ?thesis
    unfolding findTasksStatistics_counts r
    by (simp add: six_tasks_def sample_task_def)
qed

subsection \<open>The enumerations as an invariant\<close>

lemma is_status_value: "is_status (status_value v)"
  by (cases v) (simp_all add: is_status_def)

lemma is_priority_value: "is_priority (priority_value v)"
  by (cases v) (simp_all add: is_priority_def)

lemma find_in_set: "find P xs = Some x \<Longrightarrow> x \<in> set xs"
  by (induction xs) (auto split: if_splits)

lemma found_enumerated:
  assumes "enumerated s" and "repository_findOne i (tasksRepository s) = Some task"
  shows "is_status (status task)" and "is_priority (priority task)"
proof -
  from assms(2) obtain row where f: "find (\<lambda>t. task_id t = i) (rows (tasksRepository s)) = Some row"
    and t: "task = join_user (tasksRepository s) row"
    by (auto simp add: repository_findOne_def)
  from find_in_set [OF f] assms(1) have "is_status (status row) \<and> is_priority (priority row)"
    by (simp add: enumerated_def list_all_iff)
  then show "is_status (status task)" and "is_priority (priority task)"
    by (simp_all add: t join_user_def)
qed

lemma enumerated_create: "enumerated s \<Longrightarrow> enumerated (snd (create generated dto s))"
  by (simp add: create_def repository_insert_def queue_add_def Let_def enumerated_def
        is_status_value is_priority_value)

lemma enumerated_save:
  assumes "enumerated s" and "is_status (status t)" and "is_priority (priority t)"
  shows "list_all (\<lambda>t. is_status (status t) \<and> is_priority (priority t))
           (rows (snd (repository_save t (tasksRepository s))))"
  using assms
  by (auto simp add: repository_save_def enumerated_def list_all_iff columns_def)

lemma enumerated_update: "enumerated s \<Longrightarrow> enumerated (snd (update i dto s))"
proof (cases "repository_findOne i (tasksRepository s)")
  case None
  assume "enumerated s"
  with None show ?thesis by (simp add: update_def findOne_def)
next
  case (Some task)
  assume e: "enumerated s"
  have st: "is_status (status (apply_patch dto task))"
    using found_enumerated(1) [OF e Some]
    by (cases "patch_status dto") (simp_all add: apply_patch_status is_status_value)
  have pr: "is_priority (priority (apply_patch dto task))"
    using found_enumerated(2) [OF e Some]
    by (cases "patch_priority dto") (simp_all add: apply_patch_priority is_priority_value)
  from enumerated_save [OF e st pr] show ?thesis
    by (simp add: update_def findOne_def Some Let_def enumerated_def split_beta)
qed

lemma enumerated_remove: "enumerated s \<Longrightarrow> enumerated (snd (remove_task i s))"
  by (cases "repository_findOne i (tasksRepository s)")
     (simp_all add: remove_task_def findOne_def enumerated_def list_all_iff)

lemma enumerated_updateStatus:
  assumes e: "enumerated s" and v: "is_status v"
  shows "enumerated (snd (updateStatus i v s))"
proof (cases "repository_findOne i (tasksRepository s)")
  case None
  with e show ?thesis by (simp add: updateStatus_def findOne_def)
next
  case (Some task)
  have "is_priority (priority (task\<lparr>status := v\<rparr>))"
    using found_enumerated(2) [OF e Some] by simp
  with enumerated_save [OF e, of "task\<lparr>status := v\<rparr>"] v show ?thesis
    by (simp add: updateStatus_def findOne_def Some enumerated_def split_beta)
qed

lemma unchanged_by_reads:
  "snd (findAll st pr page limit s) = s"
  "snd (findTasksStatistics s) = s"
  "snd (findOne i s) = s"
  "snd (findByStatus v s) = s"
  by (simp_all add: findAll_def findTasksStatistics_def findOne_def findByStatus_def Let_def
        split: sum.split)

lemma enumerated_perform: "enumerated s \<Longrightarrow> checked c \<Longrightarrow> enumerated (perform c s)"
  by (cases c)
     (simp_all add: enumerated_create enumerated_update enumerated_remove
        enumerated_updateStatus unchanged_by_reads)

text \<open>
  C9, as amended. From a table whose rows all hold a status and a priority of the
  enumerations, every sequence of calls in which \<^verbatim>\<open>updateStatus\<close> is given a member of
  \<^verbatim>\<open>TaskStatus\<close> leads to such a table again. \<^verbatim>\<open>create\<close> and \<^verbatim>\<open>update\<close> write values
  of the enum types only, \<^verbatim>\<open>remove\<close> deletes rows, and the other methods do not write.
\<close>

theorem checked_calls_keep_enumerated:
  "enumerated s \<Longrightarrow> list_all checked cs \<Longrightarrow> enumerated (run cs s)"
  by (induction cs arbitrary: s) (simp_all add: enumerated_perform)

theorem checked_calls_keep_enumerated_witness:
  "enumerated (service_with [] True) \<and>
   list_all checked [Create ''t1'' sample_dto, UpdateStatus ''t1'' ''COMPLETED'',
                     Update ''t1'' (status_patch IN_PROGRESS)] \<and>
   enumerated (run [Create ''t1'' sample_dto, UpdateStatus ''t1'' ''COMPLETED'',
                    Update ''t1'' (status_patch IN_PROGRESS)] (service_with [] True)) \<and>
   map status (rows (tasksRepository
     (run [Create ''t1'' sample_dto, UpdateStatus ''t1'' ''COMPLETED'',
           Update ''t1'' (status_patch IN_PROGRESS)] (service_with [] True)))) = [''IN_PROGRESS'']"
proof -
  have e: "enumerated (service_with [] True)"
    by (simp add: enumerated_def service_with_def)
  have c: "list_all checked [Create ''t1'' sample_dto, UpdateStatus ''t1'' ''COMPLETED'',
                     Update ''t1'' (status_patch IN_PROGRESS)]"
    by (simp add: is_status_def)
  have "map status (rows (tasksRepository
     (run [Create ''t1'' sample_dto, UpdateStatus ''t1'' ''COMPLETED'',
           Update ''t1'' (status_patch IN_PROGRESS)] (service_with [] True)))) = [''IN_PROGRESS'']"
    by (simp add: create_def repository_insert_def queue_add_def updateStatus_def update_def
          findOne_def repository_findOne_def repository_save_def apply_patch_def join_user_def
          columns_def status_patch_def sample_dto_def service_with_def Let_def)
  with e c checked_calls_keep_enumerated [OF e c] show ?thesis by simp
qed

text \<open>
  C9 as stated fails: \<^verbatim>\<open>updateStatus\<close> assigns its string under \<^verbatim>\<open>as any\<close> and saves
  it. After a task is created, \<^verbatim>\<open>updateStatus\<close> with \<^verbatim>\<open>BOGUS\<close> leaves a row whose
  status is no member of the enumeration.
\<close>

theorem updateStatus_breaks_enumerated:
  "enumerated (service_with [] True) \<and>
   \<not> enumerated (run [Create ''t1'' sample_dto, UpdateStatus ''t1'' ''BOGUS'']
                   (service_with [] True))"
  by (simp add: enumerated_def create_def repository_insert_def queue_add_def updateStatus_def
        findOne_def repository_findOne_def repository_save_def join_user_def columns_def
        sample_dto_def service_with_def is_status_def is_priority_def Let_def)

subsection \<open>Which methods reach the queue\<close>

text \<open>
  C10. \<^verbatim>\<open>findAll\<close>, \<^verbatim>\<open>findTasksStatistics\<close>, \<^verbatim>\<open>findOne\<close>, \<^verbatim>\<open>findByStatus\<close>,
  \<^verbatim>\<open>remove\<close> and \<^verbatim>\<open>updateStatus\<close> leave the queue exactly as it was, for every
  argument and every state, whether they succeed or fail: no job is added. Only
  \<^verbatim>\<open>create\<close> and \<^verbatim>\<open>update\<close> call \<^verbatim>\<open>add\<close>.
\<close>

theorem reads_and_removals_leave_queue:
  "taskQueue (snd (findAll st pr page limit s)) = taskQueue s \<and>
   taskQueue (snd (findTasksStatistics s)) = taskQueue s \<and>
   taskQueue (snd (findOne i s)) = taskQueue s \<and>
   taskQueue (snd (findByStatus v s)) = taskQueue s \<and>
   taskQueue (snd (remove_task i s)) = taskQueue s \<and>
   taskQueue (snd (updateStatus i w s)) = taskQueue s"
proof -
  have "taskQueue (snd (findAll st pr page limit s)) = taskQueue s"
    by (simp add: findAll_def Let_def split: sum.split)
  moreover have "taskQueue (snd (findTasksStatistics s)) = taskQueue s"
    by (simp add: findTasksStatistics_def Let_def)
  moreover have "taskQueue (snd (findOne i s)) = taskQueue s"
    by (simp add: findOne_def)
  moreover have "taskQueue (snd (findByStatus v s)) = taskQueue s"
    by (simp add: findByStatus_def)
  moreover have "taskQueue (snd (remove_task i s)) = taskQueue s"
    by (cases "repository_findOne i (tasksRepository s)")
       (simp_all add: remove_task_def findOne_def)
  moreover have "taskQueue (snd (updateStatus i w s)) = taskQueue s"
    by (cases "repository_findOne i (tasksRepository s)")
       (simp_all add: updateStatus_def findOne_def repository_save_def)
  ultimately show ?thesis by simp
qed

theorem reads_and_removals_leave_queue_witness:
  "taskQueue (snd (updateStatus ''a'' ''COMPLETED''
      (service_with [sample_task ''a'' ''PENDING'' ''LOW''] True))) =
     taskQueue (service_with [sample_task ''a'' ''PENDING'' ''LOW''] True) \<and>
   taskQueue (snd (remove_task ''a''
      (service_with [sample_task ''a'' ''PENDING'' ''LOW''] True))) =
     taskQueue (service_with [sample_task ''a'' ''PENDING'' ''LOW''] True)"
  using reads_and_removals_leave_queue
    [of None None None None "service_with [sample_task ''a'' ''PENDING'' ''LOW''] True"
        "''a''" PENDING "''COMPLETED''"]
  by simp

end
